theory Spec2Isabelle
  imports Complex_Main "HOL-Library.Word" "HOL-Library.Sublist" "HOL-Library.AList"
begin

section \<open>Python values and exceptions\<close>

text \<open>
  The server codec (\<^verbatim>\<open>RawPCMSerializer\<close> in \<^verbatim>\<open>bot.py\<close>) stores whatever
  \<^verbatim>\<open>json.loads\<close> hands it, so its fields hold arbitrary decoded JSON values, not
  only integers. A Python \<^verbatim>\<open>str\<close> is modelled as the list of its UTF-8 bytes,
  \<^verbatim>\<open>bytes\<close> as a list of 8-bit words, an \<^verbatim>\<open>int\<close> as an unbounded integer.
  A \<^verbatim>\<open>float\<close> is the real number it denotes, or one of the three special values;
  the code never computes with floats, it only stores and passes them on.
  A \<^verbatim>\<open>dict\<close> is an association list in insertion order with distinct keys.
\<close>

type_synonym bytes = "8 word list"

datatype pyfloat = FNum real | FPosInf | FNegInf | FNaN

datatype pyval =
    PNone
  | PBool bool
  | PInt int
  | PFloat pyfloat
  | PStr string
  | PList "pyval list"
  | PDict "(string \<times> pyval) list"

text \<open>The exceptions that the modelled code raises, catches or lets through.\<close>

datatype py_error =
    JSONDecodeError
  | AttributeError
  | RecursionError
  | ValueError
  | QueueFull
  | WaveError
  | StructError
  | ConnectionClosedOK
  | ConnectionClosedError
  | CancelledError
  | KeyboardInterrupt

text \<open>Truth value of an object, as \<^verbatim>\<open>x or y\<close> tests it.\<close>

fun truthy :: "pyval \<Rightarrow> bool" where
  "truthy PNone = False"
| "truthy (PBool b) = b"
| "truthy (PInt i) = (i \<noteq> 0)"
| "truthy (PFloat f) = (f \<noteq> FNum 0)"
| "truthy (PStr s) = (s \<noteq> [])"
| "truthy (PList xs) = (xs \<noteq> [])"
| "truthy (PDict kvs) = (kvs \<noteq> [])"

text \<open>
  \<^verbatim>\<open>obj.get(key, default)\<close>: only a \<^verbatim>\<open>dict\<close> has the method; on every other
  decoded JSON value (\<^verbatim>\<open>None\<close>, \<^verbatim>\<open>bool\<close>, \<^verbatim>\<open>int\<close>, \<^verbatim>\<open>float\<close>,
  \<^verbatim>\<open>str\<close>, \<^verbatim>\<open>list\<close>) the attribute lookup raises \<^verbatim>\<open>AttributeError\<close>.
\<close>

fun py_get :: "pyval \<Rightarrow> string \<Rightarrow> pyval \<Rightarrow> py_error + pyval" where
  "py_get (PDict kvs) key dflt =
     Inr (case map_of kvs key of Some v \<Rightarrow> v | None \<Rightarrow> dflt)"
| "py_get obj key dflt = Inl AttributeError"

fun is_dict :: "pyval \<Rightarrow> bool" where
  "is_dict (PDict kvs) = True"
| "is_dict v = False"

text \<open>Decimal rendering of a natural number (\<^verbatim>\<open>str(n)\<close>, and an f-string's \<^verbatim>\<open>{n}\<close>).\<close>

fun show_nat :: "nat \<Rightarrow> string" where
  "show_nat n =
     (if n < 10 then [char_of (48 + n)]
      else show_nat (n div 10) @ [char_of (48 + n mod 10)])"

section \<open>The JSON decoder called by the codec\<close>

text \<open>
  \<^verbatim>\<open>deserialize\<close> calls \<^verbatim>\<open>json.loads\<close> of Python's standard library. The
  theorems about the codec take the decoder as a parameter \<open>loads\<close> and hold for every
  decoder. The functions of this section follow the standard decoder
  (\<^verbatim>\<open>json.decoder\<close>, \<^verbatim>\<open>json.scanner\<close>) so that the theorems can be run on
  concrete wire texts: whitespace is space, tab, line feed and carriage return; strings
  are read in strict mode; numbers without fraction and exponent are integers;
  \<^verbatim>\<open>NaN\<close>, \<^verbatim>\<open>Infinity\<close> and \<^verbatim>\<open>-Infinity\<close> are accepted; a repeated key keeps
  its first position and its last value. Floats are not rounded to binary64, and the
  interpreter's limits (recursion depth, digits of an integer literal) are not modelled.
\<close>

definition is_ws :: "char \<Rightarrow> bool" where
  "is_ws c = (c = CHR '' '' \<or> c = CHR 0x09 \<or> c = CHR 0x0A \<or> c = CHR 0x0D)"

definition skip_ws :: "string \<Rightarrow> string" where
  "skip_ws s = dropWhile is_ws s"

definition is_digit :: "char \<Rightarrow> bool" where
  "is_digit c = ((48::nat) \<le> of_char c \<and> of_char c \<le> (57::nat))"

definition digits_val :: "string \<Rightarrow> int" where
  "digits_val ds = foldl (\<lambda>a c. 10 * a + (of_char c - 48)) 0 ds"

definition hex_val :: "char \<Rightarrow> int option" where
  "hex_val c =
     (let k = (of_char c :: int) in
      if 48 \<le> k \<and> k \<le> 57 then Some (k - 48)
      else if 65 \<le> k \<and> k \<le> 70 then Some (k - 55)
      else if 97 \<le> k \<and> k \<le> 102 then Some (k - 87)
      else None)"

text \<open>The four hexadecimal digits of a \<^verbatim>\<open>\uXXXX\<close> escape.\<close>

definition hex4 :: "string \<Rightarrow> int option" where
  "hex4 s =
     (case map hex_val s of
        [Some a, Some b, Some c, Some d] \<Rightarrow> Some (((a * 16 + b) * 16 + c) * 16 + d)
      | _ \<Rightarrow> None)"

text \<open>A code point as the bytes of its UTF-8 form (the representation of \<^verbatim>\<open>str\<close>).\<close>

definition utf8 :: "int \<Rightarrow> string" where
  "utf8 cp =
     (if cp < 0x80 then [char_of cp]
      else if cp < 0x800 then [char_of (0xC0 + cp div 64), char_of (0x80 + cp mod 64)]
      else if cp < 0x10000 then
        [char_of (0xE0 + cp div 4096), char_of (0x80 + cp div 64 mod 64),
         char_of (0x80 + cp mod 64)]
      else
        [char_of (0xF0 + cp div 262144), char_of (0x80 + cp div 4096 mod 64),
         char_of (0x80 + cp div 64 mod 64), char_of (0x80 + cp mod 64)])"

definition backslash :: "char \<Rightarrow> char option" where
  "backslash e =
     (if e = CHR 0x22 then Some (CHR 0x22)
      else if e = CHR 0x5C then Some (CHR 0x5C)
      else if e = CHR ''/'' then Some (CHR ''/'')
      else if e = CHR ''b'' then Some (CHR 0x08)
      else if e = CHR ''f'' then Some (CHR 0x0C)
      else if e = CHR ''n'' then Some (CHR 0x0A)
      else if e = CHR ''r'' then Some (CHR 0x0D)
      else if e = CHR ''t'' then Some (CHR 0x09)
      else None)"

text \<open>
  \<^verbatim>\<open>scanstring\<close>, from after the opening quote: the decoded string and the text after
  the closing quote, or \<open>None\<close> for the decode error (unterminated string, control
  character, bad escape).
\<close>

fun scanstring :: "string \<Rightarrow> string \<Rightarrow> (string \<times> string) option" where
  "scanstring [] acc = None"
| "scanstring (c # cs) acc =
     (if c = CHR 0x22 then Some (acc, cs)
      else if c = CHR 0x5C then
        (case cs of
           [] \<Rightarrow> None
         | e # es \<Rightarrow>
             if e = CHR ''u'' then
               (case hex4 (take 4 es) of
                  None \<Rightarrow> None
                | Some hi \<Rightarrow>
                    if 0xD800 \<le> hi \<and> hi \<le> 0xDBFF
                       \<and> take 2 (drop 4 es) = [CHR 0x5C, CHR ''u''] then
                      (case hex4 (take 4 (drop 6 es)) of
                         None \<Rightarrow> None
                       | Some lo \<Rightarrow>
                           if 0xDC00 \<le> lo \<and> lo \<le> 0xDFFF then
                             scanstring (drop 10 es)
                               (acc @ utf8 (0x10000 + (hi - 0xD800) * 1024 + (lo - 0xDC00)))
                           else scanstring (drop 4 es) (acc @ utf8 hi))
                    else scanstring (drop 4 es) (acc @ utf8 hi))
             else
               (case backslash e of
                  None \<Rightarrow> None
                | Some ch \<Rightarrow> scanstring es (acc @ [ch])))
      else if (of_char c :: nat) < 0x20 then None
      else scanstring cs (acc @ [c]))"

text \<open>
  The number at the start of the text: an optional minus, \<^verbatim>\<open>0\<close> or a nonzero digit
  and more digits, then a fraction only if a digit follows the point, then an exponent
  only if a digit follows the \<^verbatim>\<open>e\<close> and its sign.
\<close>

definition match_number :: "string \<Rightarrow> (pyval \<times> string) option" where
  "match_number s =
     (let neg = (take 1 s = ''-'');
          s1 = (if neg then drop 1 s else s)
      in case s1 of
           [] \<Rightarrow> None
         | c # r \<Rightarrow>
             if \<not> is_digit c then None
             else
               let ip = (if c = CHR ''0'' then [c] else takeWhile is_digit s1);
                   s2 = drop (length ip) s1;
                   fp = (if take 1 s2 = ''.'' then takeWhile is_digit (drop 1 s2) else []);
                   s3 = (if fp = [] then s2 else drop (1 + length fp) s2);
                   has_e = (take 1 s3 = ''e'' \<or> take 1 s3 = ''E'');
                   s4 = drop 1 s3;
                   eneg = (take 1 s4 = ''-'');
                   s5 = (if take 1 s4 = ''-'' \<or> take 1 s4 = ''+'' then drop 1 s4 else s4);
                   ep = (if has_e then takeWhile is_digit s5 else []);
                   s6 = (if ep = [] then s3 else drop (length ep) s5);
                   m = digits_val (ip @ fp);
                   ex = (if eneg then - digits_val ep else digits_val ep) - int (length fp)
               in if fp = [] \<and> ep = [] then Some (PInt (if neg then - m else m), s6)
                  else Some (PFloat (FNum ((if neg then - real_of_int m else real_of_int m)
                         * (if 0 \<le> ex then 10 ^ nat ex else 1 / 10 ^ nat (- ex)))), s6))"

text \<open>
  \<^verbatim>\<open>scan_once\<close> reads one value, \<open>scan_elems\<close> the elements of an array from its
  first element on, \<open>scan_members\<close> the members of an object from after the opening
  quote of a key. The first argument bounds the depth of the calls: when it is used
  up the result is \<^verbatim>\<open>RecursionError\<close>, the exception the interpreter raises on
  nesting beyond its limit. \<open>json_loads\<close> starts with twice the length of the text
  plus two.
\<close>

fun scan_once :: "nat \<Rightarrow> string \<Rightarrow> py_error + (pyval \<times> string)"
  and scan_elems :: "nat \<Rightarrow> string \<Rightarrow> pyval list \<Rightarrow> py_error + (pyval \<times> string)"
  and scan_members ::
    "nat \<Rightarrow> string \<Rightarrow> (string \<times> pyval) list \<Rightarrow> py_error + (pyval \<times> string)"
where
  "scan_once 0 s = Inl RecursionError"
| "scan_once (Suc n) s =
     (case s of
        [] \<Rightarrow> Inl JSONDecodeError
      | c # cs \<Rightarrow>
          if c = CHR 0x22 then
            (case scanstring cs [] of
               None \<Rightarrow> Inl JSONDecodeError
             | Some (str, rest) \<Rightarrow> Inr (PStr str, rest))
          else if c = CHR ''{'' then
            (case skip_ws cs of
               [] \<Rightarrow> Inl JSONDecodeError
             | d # r \<Rightarrow>
                 if d = CHR ''}'' then Inr (PDict [], r)
                 else if d = CHR 0x22 then scan_members n r []
                 else Inl JSONDecodeError)
          else if c = CHR ''['' then
            (case skip_ws cs of
               [] \<Rightarrow> Inl JSONDecodeError
             | d # r \<Rightarrow>
                 if d = CHR '']'' then Inr (PList [], r)
                 else scan_elems n (d # r) [])
          else if take 4 s = ''null'' then Inr (PNone, drop 4 s)
          else if take 4 s = ''true'' then Inr (PBool True, drop 4 s)
          else if take 5 s = ''false'' then Inr (PBool False, drop 5 s)
          else if take 3 s = ''NaN'' then Inr (PFloat FNaN, drop 3 s)
          else if take 8 s = ''Infinity'' then Inr (PFloat FPosInf, drop 8 s)
          else if take 9 s = ''-Infinity'' then Inr (PFloat FNegInf, drop 9 s)
          else
            (case match_number s of
               None \<Rightarrow> Inl JSONDecodeError
             | Some r \<Rightarrow> Inr r))"
| "scan_elems 0 s acc = Inl RecursionError"
| "scan_elems (Suc n) s acc =
     (case scan_once n s of
        Inl e \<Rightarrow> Inl e
      | Inr (v, rest) \<Rightarrow>
          (case skip_ws rest of
             [] \<Rightarrow> Inl JSONDecodeError
           | d # r \<Rightarrow>
               if d = CHR '']'' then Inr (PList (acc @ [v]), r)
               else if d = CHR '','' then scan_elems n (skip_ws r) (acc @ [v])
               else Inl JSONDecodeError))"
| "scan_members 0 s pairs = Inl RecursionError"
| "scan_members (Suc n) s pairs =
     (case scanstring s [] of
        None \<Rightarrow> Inl JSONDecodeError
      | Some (key, r0) \<Rightarrow>
          (case skip_ws r0 of
             [] \<Rightarrow> Inl JSONDecodeError
           | c # r1 \<Rightarrow>
               if c \<noteq> CHR '':'' then Inl JSONDecodeError
               else
                 (case scan_once n (skip_ws r1) of
                    Inl e \<Rightarrow> Inl e
                  | Inr (v, r2) \<Rightarrow>
                      (case skip_ws r2 of
                         [] \<Rightarrow> Inl JSONDecodeError
                       | d # r3 \<Rightarrow>
                           if d = CHR ''}'' then Inr (PDict (AList.update key v pairs), r3)
                           else if d = CHR '','' then
                             (case skip_ws r3 of
                                [] \<Rightarrow> Inl JSONDecodeError
                              | q # r4 \<Rightarrow>
                                  if q = CHR 0x22
                                  then scan_members n r4 (AList.update key v pairs)
                                  else Inl JSONDecodeError)
                           else Inl JSONDecodeError))))"

text \<open>
  \<^verbatim>\<open>json.loads\<close>: one value between optional whitespace, and nothing after it
  (\<^verbatim>\<open>Extra data\<close> is a decode error).
\<close>

definition json_loads :: "string \<Rightarrow> py_error + pyval" where
  "json_loads s =
     (case scan_once (2 * length s + 2) (skip_ws s) of
        Inl e \<Rightarrow> Inl e
      | Inr (v, rest) \<Rightarrow> if skip_ws rest = [] then Inr v else Inl JSONDecodeError)"

section \<open>The server frame codec: \<^verbatim>\<open>RawPCMSerializer\<close> (bot.py)\<close>

text \<open>
  The frames of the pipeline framework that the codec builds or inspects. The two audio
  constructors are the instances of \<^verbatim>\<open>AudioRawFrame\<close>; \<open>OtherFrame\<close> stands for
  every frame class that is neither audio nor a start frame.
\<close>

datatype frame =
    InputAudioRawFrame (audio: bytes) (sample_rate: pyval) (num_channels: pyval)
  | OutputAudioRawFrame (audio: bytes) (sample_rate: pyval) (num_channels: pyval)
  | StartFrame (audio_in_sample_rate: pyval) (audio_in_channels: pyval)
  | OtherFrame

fun is_AudioRawFrame :: "frame \<Rightarrow> bool" where
  "is_AudioRawFrame (InputAudioRawFrame a r c) = True"
| "is_AudioRawFrame (OutputAudioRawFrame a r c) = True"
| "is_AudioRawFrame f = False"

text \<open>What the transport hands to \<^verbatim>\<open>deserialize\<close>: a binary or a text message.\<close>

datatype payload = Bytes bytes | Str string | OtherPayload

text \<open>The codec object: \<^verbatim>\<open>self._sample_rate\<close> and \<^verbatim>\<open>self._channels\<close>.\<close>

record RawPCMSerializer =
  self_sample_rate :: pyval
  self_channels :: pyval

text \<open>\<^verbatim>\<open>__init__(self, sample_rate=16000, channels=1)\<close>\<close>

definition init :: "pyval \<Rightarrow> pyval \<Rightarrow> RawPCMSerializer" where
  "init rate channels = \<lparr>self_sample_rate = rate, self_channels = channels\<rparr>"

text \<open>\<^verbatim>\<open>RawPCMSerializer()\<close>, as \<^verbatim>\<open>run_bot\<close> constructs it.\<close>

definition default_serializer :: RawPCMSerializer where
  "default_serializer = init (PInt 16000) (PInt 1)"

text \<open>
  The method \<^verbatim>\<open>setup\<close> (named \<open>serializer_setup\<close> here, the plain name being
  reserved): \<^verbatim>\<open>self._sample_rate = frame.audio_in_sample_rate or self._sample_rate\<close>.
  The channel count is not touched.
\<close>

fun serializer_setup :: "RawPCMSerializer \<Rightarrow> frame \<Rightarrow> py_error + RawPCMSerializer" where
  "serializer_setup self (StartFrame r c) =
     Inr (self\<lparr>self_sample_rate := (if truthy r then r else self_sample_rate self)\<rparr>)"
| "serializer_setup self frame = Inl AttributeError"

text \<open>
  \<^verbatim>\<open>serialize\<close>: the debug line written through \<^verbatim>\<open>logging\<close>, and the returned
  payload (\<open>None\<close> for a frame that is not audio).
\<close>

definition serialize :: "frame \<Rightarrow> string list \<times> bytes option" where
  "serialize frame =
     (if is_AudioRawFrame frame then
        ([''Serializing audio frame of '' @ show_nat (length (audio frame)) @ '' bytes''],
         Some (audio frame))
      else ([], None))"

text \<open>
  \<^verbatim>\<open>deserialize\<close>, with the JSON decoder as the parameter \<open>loads\<close>. The result is
  the raised exception or the returned frame (\<open>None\<close> for no frame), and the codec
  object after the call. Only \<^verbatim>\<open>JSONDecodeError\<close> is caught; the two fields are
  assigned one after the other, before the start frame is built.
\<close>

definition deserialize ::
  "(string \<Rightarrow> py_error + pyval) \<Rightarrow> RawPCMSerializer \<Rightarrow> payload
     \<Rightarrow> (py_error + frame option) \<times> RawPCMSerializer" where
  "deserialize loads self data =
     (case data of
        Bytes b \<Rightarrow>
          (Inr (Some (InputAudioRawFrame b (self_sample_rate self) (self_channels self))), self)
      | Str s \<Rightarrow>
          (case loads s of
             Inl e \<Rightarrow> if e = JSONDecodeError then (Inr None, self) else (Inl e, self)
           | Inr obj \<Rightarrow>
               (case py_get obj ''type'' PNone of
                  Inl e \<Rightarrow> (Inl e, self)
                | Inr t \<Rightarrow>
                    if t = PStr ''start'' then
                      (case py_get obj ''audio_in_sample_rate'' (self_sample_rate self) of
                         Inl e \<Rightarrow> (Inl e, self)
                       | Inr r \<Rightarrow>
                           (case py_get obj ''audio_in_channels'' (self_channels self) of
                              Inl e \<Rightarrow> (Inl e, self\<lparr>self_sample_rate := r\<rparr>)
                            | Inr c \<Rightarrow>
                                (Inr (Some (StartFrame r c)),
                                 self\<lparr>self_sample_rate := r, self_channels := c\<rparr>)))
                    else (Inr None, self)))
      | OtherPayload \<Rightarrow> (Inr None, self))"


text \<open>The calls that can reach the codec object during a session.\<close>

datatype codec_call = Deserialize payload | Setup frame

text \<open>
  The codec object after one call (after a call that raised, the object as the raise
  left it), and after a run of calls.
\<close>

fun codec_step ::
  "(string \<Rightarrow> py_error + pyval) \<Rightarrow> RawPCMSerializer \<Rightarrow> codec_call \<Rightarrow> RawPCMSerializer" where
  "codec_step loads self (Deserialize d) = snd (deserialize loads self d)"
| "codec_step loads self (Setup f) =
     (case serializer_setup self f of Inl e \<Rightarrow> self | Inr self' \<Rightarrow> self')"

definition codec_run ::
  "(string \<Rightarrow> py_error + pyval) \<Rightarrow> RawPCMSerializer \<Rightarrow> codec_call list \<Rightarrow> RawPCMSerializer" where
  "codec_run loads self calls = foldl (codec_step loads) self calls"

text \<open>
  The calls that assign a field of the codec object: a text message that decodes to an
  object whose \<^verbatim>\<open>"type"\<close> is \<^verbatim>\<open>"start"\<close>, and a \<^verbatim>\<open>setup\<close> whose frame carries
  a truthy input sample rate.
\<close>

fun renegotiates :: "(string \<Rightarrow> py_error + pyval) \<Rightarrow> codec_call \<Rightarrow> bool" where
  "renegotiates loads (Deserialize (Str s)) =
     (case loads s of
        Inr (PDict kvs) \<Rightarrow> map_of kvs ''type'' = Some (PStr ''start'')
      | _ \<Rightarrow> False)"
| "renegotiates loads (Deserialize d) = False"
| "renegotiates loads (Setup f) =
     (case f of StartFrame r c \<Rightarrow> truthy r | _ \<Rightarrow> False)"

text \<open>The wire texts used to run the theorems on concrete input.\<close>

definition start_8000_1 :: string where
  "start_8000_1 = ''{\"type\":\"start\",\"audio_in_sample_rate\":8000,\"audio_in_channels\":1}''"

definition start_44100_2 :: string where
  "start_44100_2 = ''{\"type\": \"start\", \"audio_in_sample_rate\": 44100, \"audio_in_channels\": 2}''"

definition not_json :: string where
  "not_json = ''{not json''"

definition stop_message :: string where
  "stop_message = ''{\"type\":\"stop\",\"audio_in_sample_rate\":8000}''"

section \<open>The debug audio capture: \<^verbatim>\<open>save_audio\<close> (bot.py)\<close>









text \<open>
  \<^verbatim>\<open>wave.Wave_write\<close> on a fresh \<^verbatim>\<open>io.BytesIO\<close>: the buffer's content and the
  fields the methods use.
\<close>

record Wave_write =
  buffer :: bytes
  nchannels :: int
  sampwidth :: int
  framerate :: int
  nframes :: int
  nframeswritten :: int
  datawritten :: int
  datalength :: int
  headerwritten :: bool























section \<open>The client duplex streamer: \<^verbatim>\<open>audio_stream\<close> (test_client.py)\<close>

text \<open>
  \<^verbatim>\<open>asyncio.Queue\<close>: the items in arrival order, the capacity (a capacity of zero or
  less means unbounded) and the count of items put and not yet marked done.
\<close>

record Queue =
  maxsize :: int
  items :: "bytes list"
  unfinished_tasks :: int

definition new_queue :: "int \<Rightarrow> Queue" where
  "new_queue n = \<lparr>maxsize = n, items = [], unfinished_tasks = 0\<rparr>"

definition qsize :: "Queue \<Rightarrow> int" where
  "qsize q = int (length (items q))"

definition full :: "Queue \<Rightarrow> bool" where
  "full q = (if maxsize q \<le> 0 then False else maxsize q \<le> qsize q)"

definition put_nowait :: "Queue \<Rightarrow> bytes \<Rightarrow> py_error + Queue" where
  "put_nowait q item =
     (if full q then Inl QueueFull
      else Inr (q\<lparr>items := items q @ [item], unfinished_tasks := unfinished_tasks q + 1\<rparr>))"

definition task_done :: "Queue \<Rightarrow> py_error + Queue" where
  "task_done q =
     (if unfinished_tasks q \<le> 0 then Inl ValueError
      else Inr (q\<lparr>unfinished_tasks := unfinished_tasks q - 1\<rparr>))"

text \<open>
  \<^verbatim>\<open>safe_put\<close>, the function that \<^verbatim>\<open>mic_callback\<close> schedules on the event loop:
  it puts the item only if the queue is not full, and does nothing otherwise.
\<close>

definition safe_put :: "Queue \<Rightarrow> bytes \<Rightarrow> py_error + Queue" where
  "safe_put q item = (if \<not> full q then put_nowait q item else Inr q)"

text \<open>
  \<^verbatim>\<open>np.frombuffer(data, dtype=np.int16)\<close>: pairs of bytes as 16-bit samples, low byte
  first; a byte string of odd length is refused.
\<close>

fun frombuffer_int16 :: "bytes \<Rightarrow> py_error + 16 word list" where
  "frombuffer_int16 [] = Inr []"
| "frombuffer_int16 [b] = Inl ValueError"
| "frombuffer_int16 (lo # hi # bs) =
     (case frombuffer_int16 bs of
        Inl e \<Rightarrow> Inl e
      | Inr ws \<Rightarrow> Inr (word_of_int (uint lo + 256 * uint hi) # ws))"

text \<open>
  The sender task is suspended in \<^verbatim>\<open>queue.get()\<close>, or in \<^verbatim>\<open>websocket.send(data)\<close>
  holding the chunk it took, or it is done with the exception that ended it (its loop
  has no other way out). The main coroutine is suspended in \<^verbatim>\<open>websocket.recv()\<close>, or
  has left the receive loop by one of the three handled ways and not yet run the lines
  after it, or has finished (returned, or raised).
\<close>

datatype sender_state = AwaitGet | AwaitSend bytes | SenderDone py_error

datatype loop_exit = Broke | CaughtCancelled | CaughtInterrupt

datatype main_state = AwaitRecv | LoopExited loop_exit | Finished "py_error + unit"

text \<open>What one \<^verbatim>\<open>await websocket.recv()\<close> yields: a message, or an exception.\<close>

datatype recv_result = RecvBytes bytes | RecvStr string | RecvRaise py_error

text \<open>
  The client: the queue, the calls scheduled by \<^verbatim>\<open>call_soon_threadsafe\<close> and not yet
  run (each is \<^verbatim>\<open>safe_put\<close> with its chunk), the two tasks, the chunks whose
  \<^verbatim>\<open>send\<close> has completed, the sample arrays written to the speaker, and the printed
  lines. \<open>accepted\<close> is a history variable, not in the source: the chunks that
  \<^verbatim>\<open>put_nowait\<close> has put into the queue, in order.
\<close>

record client =
  queue :: Queue
  callbacks :: "bytes list"
  sender_task :: sender_state
  main_task :: main_state
  sent :: "bytes list"
  speaker :: "16 word list list"
  stdout :: "string list"
  accepted :: "bytes list"

definition ellipsis :: string where
  "ellipsis = [CHR 0xE2, CHR 0x80, CHR 0xA6]"

text \<open>
  The state when the receive loop is entered: the queue of capacity 100 is empty, the
  sender task has been created, the two start-up lines have been printed.
\<close>

definition client_init :: "string \<Rightarrow> client" where
  "client_init uri =
     \<lparr>queue = new_queue 100, callbacks = [], sender_task = AwaitGet, main_task = AwaitRecv,
      sent = [], speaker = [],
      stdout = [''Connected to '' @ uri,
                ''Streaming microphone'' @ ellipsis @ '' Press Ctrl-C to stop.''],
      accepted = []\<rparr>"

text \<open>
  \<^verbatim>\<open>mic_callback(indata, frames, time, status)\<close>, run by the audio thread: it prints
  when the status reports an input overflow of the audio device, copies the chunk and
  schedules \<^verbatim>\<open>safe_put\<close>; it does not touch the queue. The second argument is
  \<^verbatim>\<open>status.input_overflow\<close>.
\<close>

definition mic_callback :: "client \<Rightarrow> bytes \<Rightarrow> bool \<Rightarrow> client" where
  "mic_callback c indata input_overflow =
     c\<lparr>stdout := stdout c @ (if input_overflow then [''Audio buffer overflow!''] else []),
       callbacks := callbacks c @ [indata]\<rparr>"

text \<open>The event loop runs the oldest scheduled call.\<close>

definition run_callback :: "client \<Rightarrow> client" where
  "run_callback c =
     (case callbacks c of
        [] \<Rightarrow> c
      | item # rest \<Rightarrow>
          (case safe_put (queue c) item of
             Inl e \<Rightarrow> c\<lparr>callbacks := rest\<rparr>
           | Inr q \<Rightarrow>
               c\<lparr>queue := q, callbacks := rest,
                 accepted := accepted c @ (if full (queue c) then [] else [item])\<rparr>))"

text \<open>
  The sender: \<^verbatim>\<open>data = await queue.get()\<close> completes when the queue has an item, and
  takes the oldest one.
\<close>

definition sender_get :: "client \<Rightarrow> client" where
  "sender_get c =
     (case (sender_task c, items (queue c)) of
        (AwaitGet, data # rest) \<Rightarrow>
          c\<lparr>queue := (queue c)\<lparr>items := rest\<rparr>, sender_task := AwaitSend data\<rparr>
      | _ \<Rightarrow> c)"

text \<open>
  The \<^verbatim>\<open>finally: queue.task_done()\<close> of the sender, entered with the exception that
  is leaving the \<^verbatim>\<open>try\<close> body, if any: an exception raised by \<^verbatim>\<open>task_done\<close>
  replaces it; with no exception the loop goes back to \<^verbatim>\<open>queue.get()\<close>.
\<close>

definition sender_finally :: "Queue \<Rightarrow> py_error option \<Rightarrow> Queue \<times> sender_state" where
  "sender_finally q raised =
     (case task_done q of
        Inl e \<Rightarrow> (q, SenderDone e)
      | Inr q' \<Rightarrow> (q', case raised of None \<Rightarrow> AwaitGet | Some e \<Rightarrow> SenderDone e))"

text \<open>\<^verbatim>\<open>await websocket.send(data)\<close> returns, or raises \<open>e\<close>.\<close>

definition sender_send :: "client \<Rightarrow> py_error option \<Rightarrow> client" where
  "sender_send c raised =
     (case sender_task c of
        AwaitSend data \<Rightarrow>
          (case sender_finally (queue c) raised of
             (q, st) \<Rightarrow>
               c\<lparr>queue := q, sender_task := st,
                 sent := sent c @ (if raised = None then [data] else [])\<rparr>)
      | _ \<Rightarrow> c)"

text \<open>
  How an exception raised in the body of the receive loop leaves the two \<^verbatim>\<open>try\<close>
  statements: a clean close prints and breaks, cancellation is passed over, a keyboard
  interrupt prints, and every other exception leaves the function.
\<close>

definition loop_raise :: "client \<Rightarrow> py_error \<Rightarrow> client" where
  "loop_raise c e =
     (if e = ConnectionClosedOK then
        c\<lparr>stdout := stdout c @ [''Server closed connection cleanly.''],
          main_task := LoopExited Broke\<rparr>
      else if e = CancelledError then c\<lparr>main_task := LoopExited CaughtCancelled\<rparr>
      else if e = KeyboardInterrupt then
        c\<lparr>stdout := stdout c @ [CHR 0x0A # ''Exiting'' @ ellipsis],
          main_task := LoopExited CaughtInterrupt\<rparr>
      else c\<lparr>main_task := Finished (Inl e)\<rparr>)"

text \<open>One turn of the receive loop, given what \<^verbatim>\<open>recv\<close> yields.\<close>

definition recv_step :: "client \<Rightarrow> recv_result \<Rightarrow> client" where
  "recv_step c r =
     (case r of
        RecvBytes b \<Rightarrow>
          if b \<noteq> [] then
            (case frombuffer_int16 b of
               Inl e \<Rightarrow> loop_raise c e
             | Inr samples \<Rightarrow> c\<lparr>speaker := speaker c @ [samples]\<rparr>)
          else c
      | RecvStr t \<Rightarrow> c
      | RecvRaise e \<Rightarrow> loop_raise c e)"

text \<open>
  \<^verbatim>\<open>sender_task.cancel()\<close> followed by
  \<^verbatim>\<open>with contextlib.suppress(asyncio.CancelledError): await sender_task\<close>. A task that
  is still suspended gets \<^verbatim>\<open>CancelledError\<close> thrown in at its \<^verbatim>\<open>await\<close> (through
  the \<^verbatim>\<open>finally\<close> when it was sending); a task that is already done keeps the
  exception it ended with. The \<^verbatim>\<open>await\<close> raises the task's exception, and only
  \<^verbatim>\<open>CancelledError\<close> is suppressed.
\<close>

definition cancel_sender :: "Queue \<Rightarrow> sender_state \<Rightarrow> Queue \<times> sender_state" where
  "cancel_sender q st =
     (case st of
        AwaitGet \<Rightarrow> (q, SenderDone CancelledError)
      | AwaitSend data \<Rightarrow> sender_finally q (Some CancelledError)
      | SenderDone e \<Rightarrow> (q, SenderDone e))"

definition shutdown :: "client \<Rightarrow> client" where
  "shutdown c =
     (case cancel_sender (queue c) (sender_task c) of
        (q, st) \<Rightarrow>
          c\<lparr>queue := q, sender_task := st,
            main_task :=
              (case st of
                 SenderDone e \<Rightarrow> Finished (if e = CancelledError then Inr () else Inl e)
               | _ \<Rightarrow> main_task c)\<rparr>)"

text \<open>
  The steps of a session. While the main coroutine is suspended in \<^verbatim>\<open>recv\<close> the
  audio thread may call back, the event loop may run a scheduled call or resume the
  sender, and \<^verbatim>\<open>recv\<close> may yield. Once the receive loop has been left by a handled
  way there is no \<^verbatim>\<open>await\<close> before the cancellation, so the only step is the
  shutdown. A step that cannot happen in the current state leaves it unchanged.
\<close>

datatype event =
    Mic bytes bool
  | RunCallback
  | SenderGet
  | SendOk
  | SendRaise py_error
  | Recv recv_result
  | Shutdown

fun client_step :: "client \<Rightarrow> event \<Rightarrow> client" where
  "client_step c Shutdown = (case main_task c of LoopExited ex \<Rightarrow> shutdown c | _ \<Rightarrow> c)"
| "client_step c ev =
     (if main_task c \<noteq> AwaitRecv then c
      else case ev of
             Mic indata overflow \<Rightarrow> mic_callback c indata overflow
           | RunCallback \<Rightarrow> run_callback c
           | SenderGet \<Rightarrow> sender_get c
           | SendOk \<Rightarrow> sender_send c None
           | SendRaise e \<Rightarrow> sender_send c (Some e)
           | Recv r \<Rightarrow> recv_step c r
           | Shutdown \<Rightarrow> c)"

definition client_run :: "client \<Rightarrow> event list \<Rightarrow> client" where
  "client_run c evs = foldl client_step c evs"




text \<open>A client whose queue holds 100 chunks, used to run the theorems.\<close>

definition full_client :: client where
  "full_client =
     (client_init ''ws://localhost:8765/ws'')
       \<lparr>queue := \<lparr>maxsize = 100, items = replicate 100 [0x00, 0x00], unfinished_tasks = 100\<rparr>,
        accepted := replicate 100 [0x00, 0x00]\<rparr>"


section \<open>Evaluating the decoder on the wire texts\<close>


lemma loads_start_8000_1:
  "json_loads start_8000_1 =
     Inr (PDict [(''type'', PStr ''start''), (''audio_in_sample_rate'', PInt 8000),
                 (''audio_in_channels'', PInt 1)])"
  unfolding start_8000_1_def by code_simp

lemma loads_start_44100_2:
  "json_loads start_44100_2 =
     Inr (PDict [(''type'', PStr ''start''), (''audio_in_sample_rate'', PInt 44100),
                 (''audio_in_channels'', PInt 2)])"
  unfolding start_44100_2_def by code_simp

lemma loads_not_json: "json_loads not_json = Inl JSONDecodeError"
  unfolding not_json_def by code_simp

lemma loads_stop_message:
  "json_loads stop_message =
     Inr (PDict [(''type'', PStr ''stop''), (''audio_in_sample_rate'', PInt 8000)])"
  unfolding stop_message_def by code_simp

lemma loads_5: "json_loads ''5'' = Inr (PInt 5)"
  by code_simp

lemma loads_list: "json_loads ''[1,2]'' = Inr (PList [PInt 1, PInt 2])"
  by code_simp

lemma loads_empty_object: "json_loads ''{}'' = Inr (PDict [])"
  by code_simp

section \<open>Properties of the server frame codec\<close>








text \<open>
  Claim C8. For every audio frame given to \<^verbatim>\<open>serialize\<close>, the returned payload is
  the frame's audio byte string itself: nothing is added before or after it, and no
  byte is changed.
\<close>
theorem serialize_forwards_raw_audio:
  "is_AudioRawFrame frame \<Longrightarrow> snd (serialize frame) = Some (audio frame)"
  by (simp add: serialize_def)

theorem serialize_forwards_raw_audio_witness:
  "is_AudioRawFrame (OutputAudioRawFrame [0x10, 0x00, 0xFF, 0x7F] (PInt 24000) (PInt 1))
   \<and> snd (serialize (OutputAudioRawFrame [0x10, 0x00, 0xFF, 0x7F] (PInt 24000) (PInt 1)))
       = Some [0x10, 0x00, 0xFF, 0x7F]"
  using serialize_forwards_raw_audio
    [of "OutputAudioRawFrame [0x10, 0x00, 0xFF, 0x7F] (PInt 24000) (PInt 1)"]
  by simp

text \<open>
  Claim C9. A text payload that is valid JSON but not an object (such as \<^verbatim>\<open>5\<close> or
  \<^verbatim>\<open>[1,2]\<close>) makes \<^verbatim>\<open>deserialize\<close> raise \<^verbatim>\<open>AttributeError\<close>: the lookup
  \<^verbatim>\<open>obj.get\<close> fails and only the decode error is caught. The codec object is left
  as it was.
\<close>
theorem non_object_json_raises:
  "loads s = Inr v \<Longrightarrow> \<not> is_dict v
     \<Longrightarrow> deserialize loads self (Str s) = (Inl AttributeError, self)"
  by (cases v) (simp_all add: deserialize_def)

theorem non_object_json_raises_witness:
  "json_loads ''5'' = Inr (PInt 5) \<and> \<not> is_dict (PInt 5)
   \<and> deserialize json_loads default_serializer (Str ''5'') = (Inl AttributeError, default_serializer)
   \<and> json_loads ''[1,2]'' = Inr (PList [PInt 1, PInt 2]) \<and> \<not> is_dict (PList [PInt 1, PInt 2])
   \<and> deserialize json_loads default_serializer (Str ''[1,2]'')
       = (Inl AttributeError, default_serializer)"
  using non_object_json_raises [of json_loads "''5''" "PInt 5" default_serializer]
    non_object_json_raises [of json_loads "''[1,2]''" "PList [PInt 1, PInt 2]" default_serializer]
  by (simp add: loads_5 loads_list)

text \<open>
  Claim C10. For every text payload that decodes to a JSON object whose \<^verbatim>\<open>"type"\<close>
  is not the string \<^verbatim>\<open>"start"\<close>, or that has no \<^verbatim>\<open>"type"\<close> key,
  \<^verbatim>\<open>deserialize\<close> returns no frame and leaves the sample rate and the channel count
  unchanged.
\<close>
theorem non_start_object_ignored:
  "loads s = Inr (PDict kvs) \<Longrightarrow> map_of kvs ''type'' \<noteq> Some (PStr ''start'')
     \<Longrightarrow> deserialize loads self (Str s) = (Inr None, self)"
  by (auto simp add: deserialize_def split: option.splits)

theorem non_start_object_ignored_witness:
  "json_loads stop_message =
     Inr (PDict [(''type'', PStr ''stop''), (''audio_in_sample_rate'', PInt 8000)])
   \<and> deserialize json_loads default_serializer (Str stop_message) = (Inr None, default_serializer)
   \<and> json_loads ''{}'' = Inr (PDict [])
   \<and> deserialize json_loads default_serializer (Str ''{}'') = (Inr None, default_serializer)"
  using non_start_object_ignored [of json_loads stop_message
      "[(''type'', PStr ''stop''), (''audio_in_sample_rate'', PInt 8000)]" default_serializer]
    non_start_object_ignored [of json_loads "''{}''" "[]" default_serializer]
  by (simp add: loads_stop_message loads_empty_object)

lemma codec_step_unchanged:
  "\<not> renegotiates loads c \<Longrightarrow> codec_step loads self c = self"
proof (cases c)
  case (Deserialize d)
  assume n: "\<not> renegotiates loads c"
  show ?thesis
  proof (cases d)
    case (Bytes b)
    with Deserialize show ?thesis by (simp add: deserialize_def)
  next
    case (Str s)
    show ?thesis
    proof (cases "loads s")
      case (Inl e)
      with Deserialize Str show ?thesis by (simp add: deserialize_def)
    next
      case (Inr v)
      with Deserialize Str n show ?thesis
        by (cases v) (auto simp add: deserialize_def split: option.splits)
    qed
  next
    case OtherPayload
    with Deserialize show ?thesis by (simp add: deserialize_def)
  qed
next
  case (Setup f)
  assume "\<not> renegotiates loads c"
  with Setup show ?thesis by (cases f) simp_all
qed

text \<open>
  Claim C4, as amended. The sample rate and the channel count of the codec object are
  changed only by a text payload that decodes to a start object and by a
  \<^verbatim>\<open>setup\<close> whose frame carries a truthy input sample rate: a run of calls none of
  which is one of these two (binary payloads, undecodable text, JSON that is not a start
  object, \<^verbatim>\<open>setup\<close> with a rate that is not truthy) leaves both as they were.
\<close>
theorem parameters_change_only_by_start_or_setup:
  "\<forall>c \<in> set calls. \<not> renegotiates loads c \<Longrightarrow> codec_run loads self calls = self"
  unfolding codec_run_def
  by (induction calls arbitrary: self) (simp_all add: codec_step_unchanged)

theorem parameters_change_only_by_start_or_setup_witness:
  "\<not> renegotiates json_loads (Deserialize (Bytes [0x01, 0x02]))
   \<and> \<not> renegotiates json_loads (Deserialize (Str not_json))
   \<and> \<not> renegotiates json_loads (Deserialize (Str stop_message))
   \<and> \<not> renegotiates json_loads (Setup (StartFrame (PInt 0) (PInt 2)))
   \<and> \<not> renegotiates json_loads (Deserialize OtherPayload)
   \<and> codec_run json_loads (init (PInt 8000) (PInt 1))
        [Deserialize (Bytes [0x01, 0x02]), Deserialize (Str not_json),
         Deserialize (Str stop_message), Setup (StartFrame (PInt 0) (PInt 2)),
         Deserialize OtherPayload] = init (PInt 8000) (PInt 1)"
  using parameters_change_only_by_start_or_setup [of
      "[Deserialize (Bytes [0x01, 0x02]), Deserialize (Str not_json),
        Deserialize (Str stop_message), Setup (StartFrame (PInt 0) (PInt 2)),
        Deserialize OtherPayload]" json_loads "init (PInt 8000) (PInt 1)"]
  by (simp add: loads_not_json loads_stop_message)

text \<open>
  Claim C4 as stated (the parameters never change once a start message has been
  applied) fails: after the start message for 8000 Hz and 1 channel a binary payload is
  tagged 8000 Hz, 1 channel; after a further start message for 44100 Hz and 2 channels
  it is tagged 44100 Hz, 2 channels; and after a \<^verbatim>\<open>setup\<close> with the pipeline's
  16000 Hz it is tagged 16000 Hz.
\<close>

theorem parameters_fixed_counterexample:
  "fst (deserialize json_loads
          (codec_run json_loads default_serializer [Deserialize (Str start_8000_1)])
          (Bytes [0x01, 0x02]))
     = Inr (Some (InputAudioRawFrame [0x01, 0x02] (PInt 8000) (PInt 1)))
   \<and> fst (deserialize json_loads
          (codec_run json_loads default_serializer
             [Deserialize (Str start_8000_1), Deserialize (Str start_44100_2)])
          (Bytes [0x01, 0x02]))
     = Inr (Some (InputAudioRawFrame [0x01, 0x02] (PInt 44100) (PInt 2)))
   \<and> fst (deserialize json_loads
          (codec_run json_loads default_serializer
             [Deserialize (Str start_8000_1), Setup (StartFrame (PInt 16000) (PInt 1))])
          (Bytes [0x01, 0x02]))
     = Inr (Some (InputAudioRawFrame [0x01, 0x02] (PInt 16000) (PInt 1)))"
  by (simp add: codec_run_def deserialize_def loads_start_8000_1 loads_start_44100_2
      default_serializer_def init_def)

section \<open>Properties of the debug audio capture\<close>

















section \<open>Properties of the client duplex streamer\<close>

























text \<open>
  Claim C3, as amended. The capture callback never touches the queue: it schedules
  \<^verbatim>\<open>safe_put\<close> and returns, and it prints \<^verbatim>\<open>Audio buffer overflow!\<close> exactly
  when the callback status reports an input overflow of the audio device, whatever the
  state of the queue. When the scheduled \<^verbatim>\<open>safe_put\<close> runs and the queue is full, the
  chunk is dropped, nothing is raised and nothing is printed; when the queue is not
  full, the chunk is appended by \<^verbatim>\<open>put_nowait\<close>, which does not wait.
\<close>
theorem capture_queue_full_is_silent:
  "queue (mic_callback c chunk overflow) = queue c
   \<and> callbacks (mic_callback c chunk overflow) = callbacks c @ [chunk]
   \<and> stdout (mic_callback c chunk overflow)
       = stdout c @ (if overflow then [''Audio buffer overflow!''] else [])
   \<and> (full q \<longrightarrow> safe_put q chunk = Inr q)
   \<and> (\<not> full q \<longrightarrow>
        safe_put q chunk
          = Inr (q\<lparr>items := items q @ [chunk], unfinished_tasks := unfinished_tasks q + 1\<rparr>))
   \<and> stdout (run_callback c) = stdout c
   \<and> (callbacks c = chunk # rest \<and> full (queue c) \<longrightarrow> run_callback c = c\<lparr>callbacks := rest\<rparr>)
   \<and> (callbacks c = chunk # rest \<and> \<not> full (queue c) \<longrightarrow>
        items (queue (run_callback c)) = items (queue c) @ [chunk])"
  by (auto simp add: mic_callback_def safe_put_def put_nowait_def run_callback_def
      split: list.splits sum.splits)

lemma full_client_full: "full (queue full_client)"
  by (simp add: full_client_def full_def qsize_def)

theorem capture_queue_full_is_silent_witness:
  "full (queue full_client)
   \<and> safe_put (queue full_client) [0x01, 0x02] = Inr (queue full_client)
   \<and> run_callback (mic_callback full_client [0x01, 0x02] False) = full_client
   \<and> \<not> full (new_queue 100)
   \<and> safe_put (new_queue 100) [0x01, 0x02]
       = Inr \<lparr>maxsize = 100, items = [[0x01, 0x02]], unfinished_tasks = 1\<rparr>"
  using capture_queue_full_is_silent [of full_client "[0x01, 0x02]" False "queue full_client" "[]"]
    capture_queue_full_is_silent [of "mic_callback full_client [0x01, 0x02] False"
      "[0x01, 0x02]" False "new_queue 100" "[]"]
    full_client_full
  by (simp add: new_queue_def full_def qsize_def mic_callback_def full_client_def
      client_init_def)

text \<open>
  Claim C3 as stated (a chunk dropped on a full queue is logged) fails: with 100 chunks
  queued and a callback whose status reports no input overflow, the chunk is dropped and
  the printed lines are the two start-up lines only.
\<close>
theorem capture_overflow_logged_counterexample:
  "full (queue full_client)
   \<and> client_run full_client [Mic [0x01, 0x02] False, RunCallback] = full_client
   \<and> stdout (client_run full_client [Mic [0x01, 0x02] False, RunCallback])
       = stdout (client_init ''ws://localhost:8765/ws'')"
proof -
  have f: "full (queue full_client)" by (rule full_client_full)
  have m: "main_task full_client = AwaitRecv"
    by (simp add: full_client_def client_init_def)
  have cb: "callbacks full_client = []"
    by (simp add: full_client_def client_init_def)
  have s: "stdout full_client = stdout (client_init ''ws://localhost:8765/ws'')"
    by (simp add: full_client_def)
  have "client_run full_client [Mic [0x01, 0x02] False, RunCallback]
          = run_callback (mic_callback full_client [0x01, 0x02] False)"
    using m by (simp add: client_run_def mic_callback_def)
  also have "\<dots> = full_client"
    using f cb by (simp add: run_callback_def mic_callback_def safe_put_def)
  finally show ?thesis using f s by simp
qed

end
